theory Spec2Isabelle
  imports Complex_Main
begin

section \<open>JavaScript values and the browser's WebSocket objects\<close>

text \<open>
  The values the clients handle are the results of \<^verbatim>\<open>JSON.parse\<close>, the objects they build
  for \<^verbatim>\<open>JSON.stringify\<close>, and \<^verbatim>\<open>undefined\<close> (a missing property, a missing argument).
  A number is a finite double, kept by its exact value; no client computes on a number.
  An object is the list of its own properties; a key occurs once.
\<close>

datatype jsval =
    JUndefined
  | JNull
  | JBool bool
  | JNum rat
  | JStr string
  | JArr "jsval list"
  | JObj "(string \<times> jsval) list"

datatype js_error = SyntaxError | TypeError | DOMException | ErrorEvent

text \<open>
  \<^verbatim>\<open>data.key\<close>: a TypeError on \<^verbatim>\<open>undefined\<close> and \<^verbatim>\<open>null\<close>, the property of an
  object, \<^verbatim>\<open>undefined\<close> where there is none. The clients read the keys \<^verbatim>\<open>type\<close>,
  \<^verbatim>\<open>bus_locations\<close>, \<^verbatim>\<open>predictions\<close> and \<^verbatim>\<open>id\<close>, which no number, string, boolean or
  array has.
\<close>

fun get_prop :: "jsval \<Rightarrow> string \<Rightarrow> js_error + jsval" where
  "get_prop JUndefined k = Inl TypeError"
| "get_prop JNull k = Inl TypeError"
| "get_prop (JObj fs) k = (case map_of fs k of None \<Rightarrow> Inr JUndefined | Some v \<Rightarrow> Inr v)"
| "get_prop v k = Inr JUndefined"

text \<open>Truthiness, and \<^verbatim>\<open>x || []\<close>.\<close>

fun truthy :: "jsval \<Rightarrow> bool" where
  "truthy JUndefined = False"
| "truthy JNull = False"
| "truthy (JBool b) = b"
| "truthy (JNum r) = (r \<noteq> 0)"
| "truthy (JStr s) = (s \<noteq> [])"
| "truthy (JArr xs) = True"
| "truthy (JObj fs) = True"

definition or_empty :: "jsval \<Rightarrow> jsval" where
  "or_empty v = (if truthy v then v else JArr [])"

text \<open>
  A WebSocket object is known to the clients by its \<^verbatim>\<open>readyState\<close>. The objects a client
  has created are kept in a store, a list indexed by the order of creation; a reference
  to a socket is its index. \<^verbatim>\<open>close()\<close> starts the closing handshake unless the socket is
  already closed; the browser fires the close event later.
\<close>

datatype readyState = CONNECTING | OPEN | CLOSING | CLOSED

definition ws_close :: "readyState \<Rightarrow> readyState" where
  "ws_close r = (if r = CLOSED then CLOSED else CLOSING)"

definition set_ready :: "nat \<Rightarrow> readyState \<Rightarrow> readyState list \<Rightarrow> readyState list" where
  "set_ready i r store = (if i < length store then store[i := r] else store)"

definition ready_of :: "readyState list \<Rightarrow> nat \<Rightarrow> readyState option" where
  "ready_of store i = (if i < length store then Some (store ! i) else None)"

datatype level = LOG | WARN | ERROR

section \<open>WebSocketService (frontend/src/services/api.js) and its consumer App.js\<close>

text \<open>
  The listeners of the service are the three arrow functions App.js registers; they
  change the React state of App, so that state is part of the world the service runs in.
\<close>

datatype callback = AppOnConnect | AppOnDisconnect | AppOnUpdate

record world =
  \<comment> \<open>the fields of WebSocketService\<close>
  socket :: "nat option"
  listeners :: "string \<rightharpoonup> callback list"
  reconnectAttempts :: nat
  maxReconnectAttempts :: nat
  reconnectInterval :: nat
  isConnecting :: bool
  \<comment> \<open>the browser: sockets created, frames handed to \<^verbatim>\<open>socket.send\<close>, the delays of the
      \<^verbatim>\<open>setTimeout\<close> calls (their callback is always \<^verbatim>\<open>connect\<close>), the console, the
      errors no handler caught, the clock \<^verbatim>\<open>new Date()\<close> reads\<close>
  sockets :: "readyState list"
  wire :: "(nat \<times> string) list"
  timers :: "nat list"
  console :: "(level \<times> string) list"
  uncaught :: "js_error list"
  clock :: nat
  \<comment> \<open>the React state of App.js\<close>
  selectedRoute :: jsval
  busLocations :: jsval
  predictions :: jsval
  isConnected :: bool
  lastUpdate :: "nat option"

text \<open>The constructor, with App's initial state and a browser that has done nothing yet.\<close>

definition WebSocketService :: world where
  "WebSocketService =
    \<lparr> socket = None, listeners = Map.empty, reconnectAttempts = 0,
      maxReconnectAttempts = 5, reconnectInterval = 3000, isConnecting = False,
      sockets = [], wire = [], timers = [], console = [], uncaught = [], clock = 0,
      selectedRoute = JNull, busLocations = JArr [], predictions = JArr [],
      isConnected = False, lastUpdate = None \<rparr>"

definition say :: "level \<Rightarrow> string \<Rightarrow> world \<Rightarrow> world" where
  "say l msg w = w\<lparr>console := console w @ [(l, msg)]\<rparr>"

text \<open>\<^verbatim>\<open>this.socket && this.socket.readyState === WebSocket.OPEN\<close>\<close>

definition socket_open :: "world \<Rightarrow> bool" where
  "socket_open w =
    (case socket w of None \<Rightarrow> False | Some i \<Rightarrow> ready_of (sockets w) i = Some OPEN)"

text \<open>
  A call that may throw returns the error, if any, with the state it had reached.
\<close>

type_synonym completion = "js_error option \<times> world"

fun run_callback :: "callback \<Rightarrow> jsval \<Rightarrow> world \<Rightarrow> completion" where
  "run_callback AppOnConnect data w =
     (None, say LOG ''Connected to WebSocket'' (w\<lparr>isConnected := True\<rparr>))"
| "run_callback AppOnDisconnect data w =
     (None, say LOG ''Disconnected from WebSocket'' (w\<lparr>isConnected := False\<rparr>))"
| "run_callback AppOnUpdate data w =
     (case get_prop data ''bus_locations'' of
        Inl e \<Rightarrow> (Some e, w)
      | Inr b \<Rightarrow>
         (let w1 = w\<lparr>busLocations := or_empty b\<rparr> in
          case get_prop data ''predictions'' of
            Inl e \<Rightarrow> (Some e, w1)
          | Inr p \<Rightarrow> (None, w1\<lparr>predictions := or_empty p, lastUpdate := Some (clock w1)\<rparr>)))"

fun forEach :: "callback list \<Rightarrow> jsval \<Rightarrow> world \<Rightarrow> completion" where
  "forEach [] data w = (None, w)"
| "forEach (cb # cbs) data w =
     (case run_callback cb data w of
        (Some e, w') \<Rightarrow> (Some e, w')
      | (None, w') \<Rightarrow> forEach cbs data w')"

definition emit :: "string \<Rightarrow> jsval \<Rightarrow> world \<Rightarrow> completion" where
  "emit event data w =
    (case listeners w event of None \<Rightarrow> (None, w) | Some cbs \<Rightarrow> forEach cbs data w)"

definition on :: "string \<Rightarrow> callback \<Rightarrow> world \<Rightarrow> world" where
  "on event cb w =
    (case listeners w event of
       None \<Rightarrow> w\<lparr>listeners := (listeners w)(event \<mapsto> [cb])\<rparr>
     | Some cbs \<Rightarrow> w\<lparr>listeners := (listeners w)(event \<mapsto> cbs @ [cb])\<rparr>)"

definition off :: "string \<Rightarrow> callback \<Rightarrow> world \<Rightarrow> world" where
  "off event cb w =
    (case listeners w event of
       None \<Rightarrow> w
     | Some cbs \<Rightarrow> w\<lparr>listeners := (listeners w)(event \<mapsto> filter (\<lambda>c. c \<noteq> cb) cbs)\<rparr>)"

definition handleReconnect :: "world \<Rightarrow> world" where
  "handleReconnect w =
    (if reconnectAttempts w < maxReconnectAttempts w
     then (let w1 = say LOG ''Attempting to reconnect...''
                      (w\<lparr>reconnectAttempts := reconnectAttempts w + 1\<rparr>)
           in w1\<lparr>timers := timers w1 @ [reconnectInterval w1]\<rparr>)
     else say ERROR ''Max reconnection attempts reached'' w)"

text \<open>
  \<^verbatim>\<open>connect()\<close>. Whether \<^verbatim>\<open>new WebSocket(url)\<close> throws is the browser's choice, the
  argument \<open>throws\<close>; the assignment to \<^verbatim>\<open>this.socket\<close> does not happen then.
\<close>

definition connect :: "bool \<Rightarrow> world \<Rightarrow> world" where
  "connect throws w =
    (if isConnecting w \<or> socket_open w then w
     else
       (let w1 = w\<lparr>isConnecting := True\<rparr> in
        if throws
        then handleReconnect
               ((say ERROR ''Error connecting to WebSocket:'' w1)\<lparr>isConnecting := False\<rparr>)
        else w1\<lparr>socket := Some (length (sockets w1)),
                 sockets := sockets w1 @ [CONNECTING]\<rparr>))"

definition disconnect :: "world \<Rightarrow> world" where
  "disconnect w =
    (case socket w of
       None \<Rightarrow> w\<lparr>isConnecting := False\<rparr>
     | Some i \<Rightarrow>
         (case ready_of (sockets w) i of
            None \<Rightarrow> w\<lparr>socket := None, isConnecting := False\<rparr>
          | Some r \<Rightarrow>
              w\<lparr>sockets := set_ready i (ws_close r) (sockets w),
                 socket := None, isConnecting := False\<rparr>))"

text \<open>
  \<^verbatim>\<open>send(data)\<close>. \<^verbatim>\<open>JSON.stringify\<close> is the runtime's, the parameter \<open>stringify\<close>: it
  returns the text or throws.
\<close>

definition send :: "('d \<Rightarrow> js_error + string) \<Rightarrow> 'd \<Rightarrow> world \<Rightarrow> completion" where
  "send stringify data w =
    (case socket w of
       None \<Rightarrow> (None, say WARN ''WebSocket is not connected'' w)
     | Some i \<Rightarrow>
         if ready_of (sockets w) i = Some OPEN
         then (case stringify data of
                 Inl e \<Rightarrow> (Some e, w)
               | Inr text \<Rightarrow> (None, w\<lparr>wire := wire w @ [(i, text)]\<rparr>))
         else (None, say WARN ''WebSocket is not connected'' w))"

definition ping_message :: jsval where
  "ping_message = JObj [(''type'', JStr ''ping'')]"

definition ping :: "(jsval \<Rightarrow> js_error + string) \<Rightarrow> world \<Rightarrow> completion" where
  "ping stringify w = send stringify ping_message w"

definition getStatus :: "world \<Rightarrow> string" where
  "getStatus w =
    (case socket w of
       None \<Rightarrow> ''disconnected''
     | Some i \<Rightarrow>
        (case ready_of (sockets w) i of
           Some CONNECTING \<Rightarrow> ''connecting''
         | Some OPEN \<Rightarrow> ''connected''
         | Some CLOSING \<Rightarrow> ''closing''
         | Some CLOSED \<Rightarrow> ''disconnected''
         | None \<Rightarrow> ''unknown''))"

text \<open>An error that leaves a handler uncaught ends the handler; the browser reports it.\<close>

definition finish :: "completion \<Rightarrow> world" where
  "finish c = (case c of (None, w) \<Rightarrow> w | (Some e, w) \<Rightarrow> w\<lparr>uncaught := uncaught w @ [e]\<rparr>)"

text \<open>
  The four handlers \<^verbatim>\<open>connect()\<close> installs on every socket it creates. They are
  closures over the service, not over the socket, and nothing ever removes them. The
  Event object passed to the error listeners is an object without the keys they read.
\<close>

definition socket_onopen :: "world \<Rightarrow> world" where
  "socket_onopen w =
    finish (emit ''connect'' JUndefined
      ((say LOG ''WebSocket connected'' w)\<lparr>isConnecting := False, reconnectAttempts := 0\<rparr>))"

definition socket_onmessage :: "(string \<Rightarrow> jsval option) \<Rightarrow> string \<Rightarrow> world \<Rightarrow> world" where
  "socket_onmessage parse payload w =
    (case parse payload of
       None \<Rightarrow> say ERROR ''Error parsing WebSocket message:'' w
     | Some data \<Rightarrow>
        (case emit ''update'' data w of
           (None, w') \<Rightarrow> w'
         | (Some e, w') \<Rightarrow> say ERROR ''Error parsing WebSocket message:'' w'))"

definition socket_onclose :: "world \<Rightarrow> world" where
  "socket_onclose w =
    (case emit ''disconnect'' JUndefined
            ((say LOG ''WebSocket disconnected:'' w)\<lparr>isConnecting := False\<rparr>) of
       (None, w') \<Rightarrow> handleReconnect w'
     | (Some e, w') \<Rightarrow> finish (Some e, w'))"

definition socket_onerror :: "world \<Rightarrow> world" where
  "socket_onerror w =
    finish (emit ''error'' (JObj [])
      ((say ERROR ''WebSocket error:'' w)\<lparr>isConnecting := False\<rparr>))"

text \<open>The module's \<^verbatim>\<open>setInterval\<close> callback and its period in milliseconds.\<close>

definition pingInterval :: nat where
  "pingInterval = 30000"

definition ping_tick :: "(jsval \<Rightarrow> js_error + string) \<Rightarrow> world \<Rightarrow> world" where
  "ping_tick stringify w = (if socket_open w then finish (ping stringify w) else w)"

text \<open>
  App.js: the effect run on mount (connect, then the three registrations), its cleanup,
  and the click on a route card.
\<close>

definition app_mount :: "bool \<Rightarrow> world \<Rightarrow> world" where
  "app_mount throws w =
    on ''update'' AppOnUpdate (on ''disconnect'' AppOnDisconnect
      (on ''connect'' AppOnConnect (connect throws w)))"

definition app_unmount :: "world \<Rightarrow> world" where
  "app_unmount w = disconnect w"

definition subscribe_message :: "jsval \<Rightarrow> jsval" where
  "subscribe_message route_id =
    JObj [(''type'', JStr ''subscribe''), (''subscription_type'', JStr ''route''),
          (''route_id'', route_id)]"

definition handleRouteSelect :: "(jsval \<Rightarrow> js_error + string) \<Rightarrow> jsval \<Rightarrow> world \<Rightarrow> world" where
  "handleRouteSelect stringify route w =
    (let w1 = w\<lparr>selectedRoute := route\<rparr> in
     if isConnected w
     then (case get_prop route ''id'' of
             Inl e \<Rightarrow> finish (Some e, w1)
           | Inr rid \<Rightarrow> finish (send stringify (subscribe_message rid) w1))
     else w1)"

text \<open>
  What can happen to the service: calls of its consumer (or of a timer it has set), and
  the browser's events. The browser opens a socket that is connecting, delivers a message
  on an open socket, and closes a socket that is not closed yet: it sets the state to
  CLOSED, fires the error event if the connection failed, then fires the close event.
\<close>

datatype event =
    Connect bool
  | Disconnect
  | Send jsval
  | PingTick
  | RouteSelect jsval
  | Advance nat
  | Open nat
  | Message nat string
  | Close nat bool

definition step ::
  "(string \<Rightarrow> jsval option) \<Rightarrow> (jsval \<Rightarrow> js_error + string) \<Rightarrow> event \<Rightarrow> world \<Rightarrow> world"
where
  "step parse stringify ev w =
    (case ev of
       Connect throws \<Rightarrow> connect throws w
     | Disconnect \<Rightarrow> disconnect w
     | Send data \<Rightarrow> finish (send stringify data w)
     | PingTick \<Rightarrow> ping_tick stringify w
     | RouteSelect route \<Rightarrow> handleRouteSelect stringify route w
     | Advance n \<Rightarrow> w\<lparr>clock := clock w + n\<rparr>
     | Open i \<Rightarrow>
         if ready_of (sockets w) i = Some CONNECTING
         then socket_onopen (w\<lparr>sockets := set_ready i OPEN (sockets w)\<rparr>)
         else w
     | Message i payload \<Rightarrow>
         if ready_of (sockets w) i = Some OPEN
         then socket_onmessage parse payload w
         else w
     | Close i failed \<Rightarrow>
         (case ready_of (sockets w) i of
            None \<Rightarrow> w
          | Some r \<Rightarrow>
              if r = CLOSED then w
              else
                (let w1 = w\<lparr>sockets := set_ready i CLOSED (sockets w)\<rparr> in
                 socket_onclose (if failed then socket_onerror w1 else w1))))"

fun run ::
  "(string \<Rightarrow> jsval option) \<Rightarrow> (jsval \<Rightarrow> js_error + string) \<Rightarrow> event list \<Rightarrow> world \<Rightarrow> world"
where
  "run parse stringify [] w = w"
| "run parse stringify (ev # evs) w = run parse stringify evs (step parse stringify ev w)"

section \<open>The production App (src/unnamed/part_001): connectWebSocket\<close>

text \<open>
  This App opens its socket itself. Of its React state, the part its socket code reads
  or writes is kept: the rest (routes, user, login form, analytics) is not touched there.
  Its \<^verbatim>\<open>setTimeout\<close> calls have two callbacks.
\<close>

datatype timer_callback = ConnectWebSocket | ClearError

record prod_app =
  p_busLocations :: jsval
  p_predictions :: jsval
  p_isConnected :: bool
  p_lastUpdate :: "nat option"
  p_ws :: "nat option"
  p_error :: "(string \<times> js_error) option"
  p_retryCount :: nat
  p_sockets :: "readyState list"
  p_wire :: "(nat \<times> string) list"
  p_timers :: "(timer_callback \<times> nat) list"
  p_console :: "(level \<times> string) list"
  p_clock :: nat

definition prod_init :: prod_app where
  "prod_init =
    \<lparr> p_busLocations = JArr [], p_predictions = JArr [], p_isConnected = False,
      p_lastUpdate = None, p_ws = None, p_error = None, p_retryCount = 0,
      p_sockets = [], p_wire = [], p_timers = [], p_console = [], p_clock = 0 \<rparr>"

definition handleError :: "js_error \<Rightarrow> string \<Rightarrow> prod_app \<Rightarrow> prod_app" where
  "handleError e ctxt st =
    st\<lparr>p_console := p_console st @ [(ERROR, ''Error in '' @ ctxt @ '':'')],
       p_error := Some (ctxt, e),
       p_timers := p_timers st @ [(ClearError, 5000)]\<rparr>"

definition websocket_onopen :: "prod_app \<Rightarrow> prod_app" where
  "websocket_onopen st =
    st\<lparr>p_console := p_console st @ [(LOG, ''WebSocket connected'')],
       p_isConnected := True, p_error := None, p_retryCount := 0\<rparr>"

definition websocket_onmessage :: "(string \<Rightarrow> jsval option) \<Rightarrow> string \<Rightarrow> prod_app \<Rightarrow> prod_app" where
  "websocket_onmessage parse payload st =
    (case parse payload of
       None \<Rightarrow> handleError SyntaxError ''Parsing WebSocket message'' st
     | Some data \<Rightarrow>
        (case get_prop data ''type'' of
           Inl e \<Rightarrow> handleError e ''Parsing WebSocket message'' st
         | Inr t \<Rightarrow>
            if t = JStr ''update''
            then (case get_prop data ''bus_locations'' of
                    Inl e \<Rightarrow> handleError e ''Parsing WebSocket message'' st
                  | Inr b \<Rightarrow>
                     (let st1 = st\<lparr>p_busLocations := or_empty b\<rparr> in
                      case get_prop data ''predictions'' of
                        Inl e \<Rightarrow> handleError e ''Parsing WebSocket message'' st1
                      | Inr p \<Rightarrow>
                          st1\<lparr>p_predictions := or_empty p,
                              p_lastUpdate := Some (p_clock st1)\<rparr>))
            else st))"

definition websocket_onclose :: "prod_app \<Rightarrow> prod_app" where
  "websocket_onclose st =
    st\<lparr>p_console := p_console st @ [(LOG, ''WebSocket disconnected'')],
       p_isConnected := False,
       p_timers := p_timers st @ [(ConnectWebSocket, 3000)]\<rparr>"

definition websocket_onerror :: "prod_app \<Rightarrow> prod_app" where
  "websocket_onerror st = (handleError ErrorEvent ''WebSocket connection'' st)\<lparr>p_isConnected := False\<rparr>"

definition connectWebSocket :: "bool \<Rightarrow> prod_app \<Rightarrow> prod_app" where
  "connectWebSocket throws st =
    (if throws then handleError DOMException ''WebSocket connection'' st
     else st\<lparr>p_ws := Some (length (p_sockets st)),
             p_sockets := p_sockets st @ [CONNECTING]\<rparr>)"

text \<open>\<^verbatim>\<open>retry\<close> (its REST reload left out) and the socket part of \<^verbatim>\<open>handleLogout\<close>.\<close>

definition retry :: "bool \<Rightarrow> prod_app \<Rightarrow> prod_app" where
  "retry throws st =
    connectWebSocket throws (st\<lparr>p_retryCount := p_retryCount st + 1, p_error := None\<rparr>)"

definition handleLogout :: "prod_app \<Rightarrow> prod_app" where
  "handleLogout st =
    (case p_ws st of
       None \<Rightarrow> st
     | Some i \<Rightarrow>
        (case ready_of (p_sockets st) i of
           None \<Rightarrow> st
         | Some r \<Rightarrow> st\<lparr>p_sockets := set_ready i (ws_close r) (p_sockets st)\<rparr>))"

datatype prod_event =
    PConnect bool
  | PRetry bool
  | PLogout
  | PClearError
  | PAdvance nat
  | POpen nat
  | PMessage nat string
  | PClose nat bool

definition prod_step :: "(string \<Rightarrow> jsval option) \<Rightarrow> prod_event \<Rightarrow> prod_app \<Rightarrow> prod_app" where
  "prod_step parse ev st =
    (case ev of
       PConnect throws \<Rightarrow> connectWebSocket throws st
     | PRetry throws \<Rightarrow> retry throws st
     | PLogout \<Rightarrow> handleLogout st
     | PClearError \<Rightarrow> st\<lparr>p_error := None\<rparr>
     | PAdvance n \<Rightarrow> st\<lparr>p_clock := p_clock st + n\<rparr>
     | POpen i \<Rightarrow>
         if ready_of (p_sockets st) i = Some CONNECTING
         then websocket_onopen (st\<lparr>p_sockets := set_ready i OPEN (p_sockets st)\<rparr>)
         else st
     | PMessage i payload \<Rightarrow>
         if ready_of (p_sockets st) i = Some OPEN
         then websocket_onmessage parse payload st
         else st
     | PClose i failed \<Rightarrow>
         (case ready_of (p_sockets st) i of
            None \<Rightarrow> st
          | Some r \<Rightarrow>
              if r = CLOSED then st
              else
                (let st1 = st\<lparr>p_sockets := set_ready i CLOSED (p_sockets st)\<rparr> in
                 websocket_onclose (if failed then websocket_onerror st1 else st1))))"

fun prod_run :: "(string \<Rightarrow> jsval option) \<Rightarrow> prod_event list \<Rightarrow> prod_app \<Rightarrow> prod_app" where
  "prod_run parse [] st = st"
| "prod_run parse (ev # evs) st = prod_run parse evs (prod_step parse ev st)"

section \<open>The simple App (frontend/src/App_simple.js)\<close>

text \<open>One socket, opened on mount and never reopened; no prediction state.\<close>

record simple_app =
  s_buses :: jsval
  s_isConnected :: bool
  s_lastUpdate :: "nat option"
  s_ws :: readyState
  s_console :: "(level \<times> string) list"
  s_clock :: nat

definition ws_onopen :: "simple_app \<Rightarrow> simple_app" where
  "ws_onopen st =
    st\<lparr>s_console := s_console st @ [(LOG, ''WebSocket connected'')], s_isConnected := True\<rparr>"

definition ws_onmessage :: "(string \<Rightarrow> jsval option) \<Rightarrow> string \<Rightarrow> simple_app \<Rightarrow> simple_app" where
  "ws_onmessage parse payload st =
    (let failed = st\<lparr>s_console := s_console st @ [(ERROR, ''Error parsing WebSocket message:'')]\<rparr>
     in case parse payload of
       None \<Rightarrow> failed
     | Some data \<Rightarrow>
        (case get_prop data ''type'' of
           Inl e \<Rightarrow> failed
         | Inr t \<Rightarrow>
            if t = JStr ''update''
            then (case get_prop data ''bus_locations'' of
                    Inl e \<Rightarrow> failed
                  | Inr b \<Rightarrow> st\<lparr>s_buses := or_empty b, s_lastUpdate := Some (s_clock st)\<rparr>)
            else st))"

definition ws_onclose :: "simple_app \<Rightarrow> simple_app" where
  "ws_onclose st =
    st\<lparr>s_console := s_console st @ [(LOG, ''WebSocket disconnected'')], s_isConnected := False\<rparr>"

definition ws_onerror :: "simple_app \<Rightarrow> simple_app" where
  "ws_onerror st =
    st\<lparr>s_console := s_console st @ [(ERROR, ''WebSocket error:'')], s_isConnected := False\<rparr>"

section \<open>Reachable states of the service\<close>

text \<open>
  The listeners App.js has registered once its effect has run, and what holds of the
  service in every state it reaches from there: the listeners, the maximum and the
  interval never change, the counter stays within the maximum, every delay handed to
  \<^verbatim>\<open>setTimeout\<close> is the interval.
\<close>

definition app_listeners :: "string \<rightharpoonup> callback list" where
  "app_listeners =
    [''connect'' \<mapsto> [AppOnConnect], ''disconnect'' \<mapsto> [AppOnDisconnect],
     ''update'' \<mapsto> [AppOnUpdate]]"

definition service_inv :: "world \<Rightarrow> bool" where
  "service_inv w =
    (listeners w = app_listeners \<and> maxReconnectAttempts w = 5 \<and>
     reconnectInterval w = 3000 \<and> reconnectAttempts w \<le> 5 \<and>
     set (timers w) \<subseteq> {3000})"

text \<open>The events that open a socket, and the events that call \<^verbatim>\<open>send\<close>.\<close>

fun is_open :: "event \<Rightarrow> bool" where
  "is_open (Open i) = True"
| "is_open ev = False"

fun transmits :: "event \<Rightarrow> bool" where
  "transmits (Send d) = True"
| "transmits PingTick = True"
| "transmits (RouteSelect r) = True"
| "transmits ev = False"

text \<open>
  Between two states with no socket opened in between: the counter has not gone down,
  it has gone up by the number of timers set, and the consumer has not been told of a
  connection.
\<close>

definition quiet :: "world \<Rightarrow> world \<Rightarrow> bool" where
  "quiet w w' =
    (reconnectAttempts w \<le> reconnectAttempts w' \<and>
     length (timers w') + reconnectAttempts w = length (timers w) + reconnectAttempts w' \<and>
     (\<exists>ts. timers w' = timers w @ ts) \<and>
     (isConnected w' \<longrightarrow> isConnected w))"

text \<open>What the callbacks of App.js leave alone: everything but React state and console.\<close>

definition same_service :: "world \<Rightarrow> world \<Rightarrow> bool" where
  "same_service w w' =
    (socket w' = socket w \<and> listeners w' = listeners w \<and>
     reconnectAttempts w' = reconnectAttempts w \<and>
     maxReconnectAttempts w' = maxReconnectAttempts w \<and>
     reconnectInterval w' = reconnectInterval w \<and> isConnecting w' = isConnecting w \<and>
     sockets w' = sockets w \<and> wire w' = wire w \<and> timers w' = timers w \<and>
     uncaught w' = uncaught w \<and> clock w' = clock w \<and> selectedRoute w' = selectedRoute w)"

text \<open>The timers the production App sets: a reconnection after 3000, a cleared error after 5000.\<close>

definition prod_timers_ok :: "prod_app \<Rightarrow> bool" where
  "prod_timers_ok st = (set (p_timers st) \<subseteq> {(ConnectWebSocket, 3000), (ClearError, 5000)})"

subsection \<open>Concrete inputs\<close>

text \<open>
  A stand-in for \<^verbatim>\<open>JSON.stringify\<close> that only tells whether it was given the expected
  value; the service just mounted by App.js; the same once the browser has opened its
  socket.
\<close>

definition mark_shape :: "jsval \<Rightarrow> jsval \<Rightarrow> js_error + string" where
  "mark_shape expected d = Inr (if d = expected then ''expected'' else ''other'')"

definition mounted :: world where
  "mounted = app_mount False WebSocketService"

definition connected :: world where
  "connected = run Map.empty (mark_shape JNull) [Open 0] mounted"

text \<open>
  More concrete inputs: \<open>n\<close> connections that fail one after the other, each followed by
  the call of \<^verbatim>\<open>connect\<close> its timer makes, and the service after five of them; a route
  as the REST API returns it, and the service after the user has selected it; the simple
  App on mount; an update as the server sends it, an update as the specification
  writes it, a pong; the production App with a bus on its map.
\<close>

fun failures :: "nat \<Rightarrow> event list" where
  "failures 0 = []"
| "failures (Suc n) = failures n @ [Close n True, Connect False]"

definition exhausted :: world where
  "exhausted = run Map.empty (mark_shape JNull) (failures 5) mounted"

definition route7 :: jsval where
  "route7 = JObj [(''id'', JNum 7), (''route_number'', JStr ''7A'')]"

definition subscribed :: world where
  "subscribed = handleRouteSelect (mark_shape (subscribe_message (JNum 7))) route7 connected"

definition simple_init :: simple_app where
  "simple_init =
    \<lparr> s_buses = JArr [], s_isConnected = False, s_lastUpdate = None, s_ws = CONNECTING,
      s_console = [], s_clock = 0 \<rparr>"

definition update_envelope :: jsval where
  "update_envelope =
    JObj [(''type'', JStr ''update''), (''bus_locations'', JArr [JStr ''bus-1'']),
          (''predictions'', JArr [JStr ''eta-1''])]"

definition spec_envelope :: jsval where
  "spec_envelope =
    JObj [(''type'', JStr ''update''), (''tick'', JNum 1), (''timestamp'', JNum 2),
          (''vehicles'', JArr [JStr ''bus-1'']), (''predictions'', JArr [JStr ''eta-1''])]"

definition pong_message :: jsval where
  "pong_message = JObj [(''type'', JStr ''pong'')]"

definition prod_tracking :: prod_app where
  "prod_tracking =
    prod_init\<lparr>p_busLocations := JArr [JStr ''bus-0''], p_predictions := JArr [JStr ''eta-0'']\<rparr>"

section \<open>Lemmas\<close>

subsection \<open>What the listeners leave alone\<close>

lemma run_callback_frame: "run_callback cb d w = (e, w') \<Longrightarrow> same_service w w'"
  by (cases cb) (auto simp: same_service_def say_def Let_def split: sum.splits)

lemma forEach_frame: "forEach cbs d w = (e, w') \<Longrightarrow> same_service w w'"
proof (induction cbs arbitrary: w)
  case Nil
  then show ?case by (simp add: same_service_def)
next
  case (Cons cb cbs)
  obtain e1 w1 where r: "run_callback cb d w = (e1, w1)" by (cases "run_callback cb d w")
  note f1 = run_callback_frame [OF r]
  show ?case
  proof (cases e1)
    case None
    with Cons.prems r have "forEach cbs d w1 = (e, w')" by simp
    from Cons.IH [OF this] f1 show ?thesis by (simp add: same_service_def)
  next
    case (Some a)
    with Cons.prems r have "w' = w1" by simp
    with f1 show ?thesis by simp
  qed
qed

lemma emit_frame: "emit ev d w = (e, w') \<Longrightarrow> same_service w w'"
  unfolding emit_def using forEach_frame
  by (cases "listeners w ev") (auto simp: same_service_def)

subsection \<open>The listeners of App.js\<close>

lemma emit_connect:
  "listeners w = app_listeners \<Longrightarrow>
   emit ''connect'' d w = (None, say LOG ''Connected to WebSocket'' (w\<lparr>isConnected := True\<rparr>))"
  by (simp add: emit_def app_listeners_def)

lemma emit_disconnect:
  "listeners w = app_listeners \<Longrightarrow>
   emit ''disconnect'' d w =
     (None, say LOG ''Disconnected from WebSocket'' (w\<lparr>isConnected := False\<rparr>))"
  by (simp add: emit_def app_listeners_def)

lemma emit_error:
  "listeners w = app_listeners \<Longrightarrow> emit ''error'' d w = (None, w)"
  by (simp add: emit_def app_listeners_def)

lemma emit_update:
  "listeners w = app_listeners \<Longrightarrow>
   emit ''update'' d w = (case run_callback AppOnUpdate d w of (Some e, w') \<Rightarrow> (Some e, w') | (None, w') \<Rightarrow> (None, w'))"
  by (simp add: emit_def app_listeners_def split: prod.splits option.splits)

subsection \<open>The invariant of the reachable states\<close>

lemma inv_mount: "service_inv (app_mount b WebSocketService)"
  by (simp add: service_inv_def app_mount_def on_def connect_def WebSocketService_def
      socket_open_def handleReconnect_def say_def app_listeners_def Let_def)

lemma inv_handleReconnect: "service_inv w \<Longrightarrow> service_inv (handleReconnect w)"
  by (auto simp: service_inv_def handleReconnect_def say_def Let_def)

lemma inv_connect: "service_inv w \<Longrightarrow> service_inv (connect b w)"
  by (auto simp: service_inv_def connect_def handleReconnect_def say_def Let_def)

lemma inv_disconnect: "service_inv w \<Longrightarrow> service_inv (disconnect w)"
  by (auto simp: service_inv_def disconnect_def split: option.splits)

lemma inv_send: "service_inv w \<Longrightarrow> service_inv (finish (send S d w))"
  by (auto simp: service_inv_def send_def finish_def say_def split: option.splits sum.splits)

lemma inv_ping_tick: "service_inv w \<Longrightarrow> service_inv (ping_tick S w)"
  by (simp add: ping_tick_def ping_def inv_send)

lemma inv_handleRouteSelect: "service_inv w \<Longrightarrow> service_inv (handleRouteSelect S r w)"
  by (auto simp: service_inv_def handleRouteSelect_def send_def finish_def say_def Let_def
      split: option.splits sum.splits)

lemma inv_onopen: "service_inv w \<Longrightarrow> service_inv (socket_onopen w)"
  by (simp add: service_inv_def socket_onopen_def emit_connect say_def finish_def)

lemma inv_onerror: "service_inv w \<Longrightarrow> service_inv (socket_onerror w)"
  by (simp add: service_inv_def socket_onerror_def emit_error say_def finish_def)

lemma inv_onclose: "service_inv w \<Longrightarrow> service_inv (socket_onclose w)"
proof -
  assume i: "service_inv w"
  then have "socket_onclose w =
     handleReconnect (say LOG ''Disconnected from WebSocket''
        (((say LOG ''WebSocket disconnected:'' w)\<lparr>isConnecting := False\<rparr>)\<lparr>isConnected := False\<rparr>))"
    by (simp add: socket_onclose_def emit_disconnect say_def service_inv_def)
  moreover from i have "service_inv (say LOG ''Disconnected from WebSocket''
        (((say LOG ''WebSocket disconnected:'' w)\<lparr>isConnecting := False\<rparr>)\<lparr>isConnected := False\<rparr>))"
    by (simp add: service_inv_def say_def)
  ultimately show ?thesis by (simp add: inv_handleReconnect)
qed

lemma inv_onmessage: "service_inv w \<Longrightarrow> service_inv (socket_onmessage P m w)"
  by (auto simp: service_inv_def socket_onmessage_def emit_update say_def Let_def
      split: option.splits sum.splits prod.splits)

lemma inv_sockets: "service_inv w \<Longrightarrow> service_inv (w\<lparr>sockets := s\<rparr>)"
  by (simp add: service_inv_def)

lemma inv_step: "service_inv w \<Longrightarrow> service_inv (step P S ev w)"
  by (cases ev)
     (simp_all add: step_def inv_connect inv_disconnect inv_send inv_ping_tick
        inv_handleRouteSelect inv_onopen inv_onerror inv_onclose inv_onmessage inv_sockets
        Let_def service_inv_def [of "w\<lparr>clock := _\<rparr>"] split: option.splits,
      simp add: service_inv_def)

lemma inv_run: "service_inv w \<Longrightarrow> service_inv (run P S evs w)"
  by (induction evs arbitrary: w) (simp_all add: inv_step)

subsection \<open>Timers are paid for by the counter\<close>

lemma quiet_refl: "quiet w w"
  by (simp add: quiet_def)

lemma quiet_trans: "quiet a b \<Longrightarrow> quiet b c \<Longrightarrow> quiet a c"
  by (auto simp: quiet_def)

lemma quiet_handleReconnect: "quiet w (handleReconnect w)"
  by (simp add: quiet_def handleReconnect_def say_def Let_def)

lemma quiet_connect: "quiet w (connect b w)"
  by (simp add: quiet_def connect_def handleReconnect_def say_def Let_def)

lemma quiet_disconnect: "quiet w (disconnect w)"
  by (simp add: quiet_def disconnect_def split: option.splits)

lemma quiet_send: "quiet w (finish (send S d w))"
  by (simp add: quiet_def send_def finish_def say_def split: option.splits sum.splits)

lemma quiet_ping_tick: "quiet w (ping_tick S w)"
  by (simp add: ping_tick_def ping_def quiet_send quiet_refl)

lemma quiet_handleRouteSelect: "quiet w (handleRouteSelect S r w)"
  by (simp add: quiet_def handleRouteSelect_def send_def finish_def say_def Let_def
      split: option.splits sum.splits)

lemma quiet_onerror: "service_inv w \<Longrightarrow> quiet w (socket_onerror w)"
  by (simp add: quiet_def service_inv_def socket_onerror_def emit_error say_def finish_def)

lemma onclose_eq:
  "service_inv w \<Longrightarrow> socket_onclose w =
     handleReconnect (say LOG ''Disconnected from WebSocket''
        (((say LOG ''WebSocket disconnected:'' w)\<lparr>isConnecting := False\<rparr>)\<lparr>isConnected := False\<rparr>))"
  by (simp add: socket_onclose_def emit_disconnect say_def service_inv_def)

lemma quiet_onclose: "service_inv w \<Longrightarrow> quiet w (socket_onclose w)"
  by (simp add: onclose_eq) (simp add: quiet_def handleReconnect_def say_def Let_def)

lemma quiet_onmessage: "service_inv w \<Longrightarrow> quiet w (socket_onmessage P m w)"
  by (auto simp: quiet_def service_inv_def socket_onmessage_def emit_update say_def Let_def
      split: option.splits sum.splits prod.splits)

lemma quiet_sockets: "quiet w (w\<lparr>sockets := s\<rparr>)"
  by (simp add: quiet_def)

lemma quiet_step: "service_inv w \<Longrightarrow> \<not> is_open ev \<Longrightarrow> quiet w (step P S ev w)"
proof (cases ev)
  case (Close i failed)
  assume i: "service_inv w"
  have a: "quiet w (socket_onclose (w\<lparr>sockets := s\<rparr>))" for s
    using quiet_trans [OF quiet_sockets quiet_onclose [OF inv_sockets [OF i]]] .
  have b: "quiet w (socket_onclose (socket_onerror (w\<lparr>sockets := s\<rparr>)))" for s
    using quiet_trans [OF quiet_trans [OF quiet_sockets quiet_onerror [OF inv_sockets [OF i]]]
        quiet_onclose [OF inv_onerror [OF inv_sockets [OF i]]]] .
  show ?thesis using Close a b
    by (simp add: step_def quiet_refl Let_def split: option.splits)
next
  case (Advance n)
  then show ?thesis by (simp add: step_def quiet_def)
qed (simp_all add: step_def quiet_connect quiet_disconnect quiet_send quiet_ping_tick
      quiet_handleRouteSelect quiet_onmessage quiet_refl)

lemma quiet_run:
  "service_inv w \<Longrightarrow> \<forall>ev \<in> set evs. \<not> is_open ev \<Longrightarrow> quiet w (run P S evs w)"
proof (induction evs arbitrary: w)
  case Nil
  then show ?case by (simp add: quiet_refl)
next
  case (Cons ev evs)
  from Cons.prems have q: "quiet w (step P S ev w)" by (simp add: quiet_step)
  from Cons.prems have "quiet (step P S ev w) (run P S evs (step P S ev w))"
    by (intro Cons.IH) (simp_all add: inv_step)
  with q show ?case by (simp add: quiet_trans [OF q])
qed

lemma exhausted_stays:
  assumes "service_inv w" "service_inv w'" "quiet w w'" "reconnectAttempts w = 5"
  shows "timers w' = timers w"
  using assms by (auto simp: quiet_def service_inv_def)

subsection \<open>What is handed to the sockets\<close>

lemma wire_finish: "wire (finish c) = wire (snd c)"
  by (cases c) (simp add: finish_def split: option.splits)

lemma wire_emit: "wire (snd (emit ev d w)) = wire w"
  using emit_frame [of ev d w "fst (emit ev d w)" "snd (emit ev d w)"]
  by (simp add: same_service_def)

lemma wire_handleReconnect: "wire (handleReconnect w) = wire w"
  by (simp add: handleReconnect_def say_def Let_def)

lemma wire_onopen: "wire (socket_onopen w) = wire w"
  by (simp add: socket_onopen_def wire_finish wire_emit say_def)

lemma wire_onerror: "wire (socket_onerror w) = wire w"
  by (simp add: socket_onerror_def wire_finish wire_emit say_def)

lemma wire_onclose: "wire (socket_onclose w) = wire w"
proof -
  let ?w1 = "(say LOG ''WebSocket disconnected:'' w)\<lparr>isConnecting := False\<rparr>"
  obtain e w' where r: "emit ''disconnect'' JUndefined ?w1 = (e, w')"
    by (cases "emit ''disconnect'' JUndefined ?w1")
  from wire_emit [of "''disconnect''" JUndefined ?w1] r have "wire w' = wire w"
    by (simp add: say_def)
  with r show ?thesis
    by (cases e) (simp_all add: socket_onclose_def wire_handleReconnect wire_finish)
qed

lemma wire_onmessage: "wire (socket_onmessage P m w) = wire w"
proof (cases "P m")
  case None
  then show ?thesis by (simp add: socket_onmessage_def say_def)
next
  case (Some data)
  obtain e w' where r: "emit ''update'' data w = (e, w')" by (cases "emit ''update'' data w")
  from wire_emit [of "''update''" data w] r have "wire w' = wire w" by simp
  with r Some show ?thesis by (cases e) (simp_all add: socket_onmessage_def say_def)
qed

lemma wire_connect: "wire (connect b w) = wire w"
  by (simp add: connect_def handleReconnect_def say_def Let_def)

lemma wire_disconnect: "wire (disconnect w) = wire w"
  by (simp add: disconnect_def split: option.splits)

lemma wire_step: "\<not> transmits ev \<Longrightarrow> wire (step P S ev w) = wire w"
  by (cases ev)
     (simp_all add: step_def wire_connect wire_disconnect wire_onopen wire_onmessage
        wire_onclose wire_onerror Let_def split: option.splits)

lemma wire_run: "\<forall>ev \<in> set evs. \<not> transmits ev \<Longrightarrow> wire (run P S evs w) = wire w"
  by (induction evs arbitrary: w) (simp_all add: wire_step)

subsection \<open>The concrete states of the service\<close>

lemma mounted_eq:
  "mounted =
    \<lparr> socket = Some 0, listeners = app_listeners, reconnectAttempts = 0,
      maxReconnectAttempts = 5, reconnectInterval = 3000, isConnecting = True,
      sockets = [CONNECTING], wire = [], timers = [], console = [], uncaught = [], clock = 0,
      selectedRoute = JNull, busLocations = JArr [], predictions = JArr [],
      isConnected = False, lastUpdate = None \<rparr>"
  by (simp add: mounted_def app_mount_def on_def connect_def WebSocketService_def
      socket_open_def app_listeners_def)

lemma connected_eq:
  "connected =
    \<lparr> socket = Some 0, listeners = app_listeners, reconnectAttempts = 0,
      maxReconnectAttempts = 5, reconnectInterval = 3000, isConnecting = False,
      sockets = [OPEN], wire = [], timers = [],
      console = [(LOG, ''WebSocket connected''), (LOG, ''Connected to WebSocket'')],
      uncaught = [], clock = 0,
      selectedRoute = JNull, busLocations = JArr [], predictions = JArr [],
      isConnected = True, lastUpdate = None \<rparr>"
  by (simp add: connected_def step_def mounted_eq socket_onopen_def emit_connect finish_def
      say_def set_ready_def ready_of_def)


lemma connected_open: "socket_open connected"
  by (simp add: connected_eq socket_open_def ready_of_def)

lemma mounted_not_open: "\<not> socket_open mounted"
  by (simp add: mounted_eq socket_open_def ready_of_def)

lemma inv_mounted: "service_inv mounted"
  by (simp add: mounted_def inv_mount)

lemma inv_connected: "service_inv connected"
  by (simp add: service_inv_def connected_eq)

subsection \<open>Close events\<close>


lemma onerror_keeps:
  "service_inv w \<Longrightarrow>
     timers (socket_onerror w) = timers w \<and>
     reconnectAttempts (socket_onerror w) = reconnectAttempts w"
  by (simp add: service_inv_def socket_onerror_def emit_error say_def finish_def)

lemma onclose_timers:
  "service_inv w \<Longrightarrow>
     timers (socket_onclose w) =
       (if reconnectAttempts w < 5 then timers w @ [3000] else timers w) \<and>
     \<not> isConnected (socket_onclose w)"
  by (simp add: onclose_eq) (simp add: service_inv_def handleReconnect_def say_def Let_def)

lemma close_step:
  assumes "service_inv w" "ready_of (sockets w) i = Some r" "r \<noteq> CLOSED"
  shows "timers (step P S (Close i failed) w) =
           (if reconnectAttempts w < 5 then timers w @ [3000] else timers w) \<and>
         \<not> isConnected (step P S (Close i failed) w)"
proof -
  let ?w1 = "w\<lparr>sockets := set_ready i CLOSED (sockets w)\<rparr>"
  have i1: "service_inv ?w1" using assms(1) by (rule inv_sockets)
  have s: "step P S (Close i failed) w =
             socket_onclose (if failed then socket_onerror ?w1 else ?w1)"
    using assms(2,3) by (simp add: step_def Let_def)
  show ?thesis
  proof (cases failed)
    case True
    with s onclose_timers [OF inv_onerror [OF i1]] onerror_keeps [OF i1]
    show ?thesis by simp
  next
    case False
    with s onclose_timers [OF i1] show ?thesis by simp
  qed
qed




subsection \<open>The production App\<close>

lemma prod_timers_init: "prod_timers_ok prod_init"
  by (simp add: prod_timers_ok_def prod_init_def)

lemma prod_timers_handleError: "prod_timers_ok st \<Longrightarrow> prod_timers_ok (handleError e c st)"
  by (simp add: prod_timers_ok_def handleError_def)

lemma prod_timers_step: "prod_timers_ok st \<Longrightarrow> prod_timers_ok (prod_step P ev st)"
  by (cases ev)
     (auto simp: prod_timers_ok_def prod_step_def connectWebSocket_def retry_def
        handleLogout_def websocket_onopen_def websocket_onmessage_def websocket_onclose_def
        websocket_onerror_def handleError_def Let_def
        split: option.splits sum.splits if_splits)

lemma prod_timers_run: "prod_timers_ok st \<Longrightarrow> prod_timers_ok (prod_run P evs st)"
  by (induction evs arbitrary: st) (simp_all add: prod_timers_step)

lemma prod_wire_step: "p_wire (prod_step P ev st) = p_wire st"
  by (cases ev)
     (auto simp: prod_step_def connectWebSocket_def retry_def
        handleLogout_def websocket_onopen_def websocket_onmessage_def websocket_onclose_def
        websocket_onerror_def handleError_def Let_def
        split: option.splits sum.splits if_splits)

lemma prod_wire_run: "p_wire (prod_run P evs st) = p_wire st"
  by (induction evs arbitrary: st) (simp_all add: prod_wire_step)

subsection \<open>Connections that fail one after the other\<close>

lemma onerror_fields:
  "service_inv w \<Longrightarrow>
     socket (socket_onerror w) = socket w \<and> sockets (socket_onerror w) = sockets w \<and>
     isConnected (socket_onerror w) = isConnected w \<and> wire (socket_onerror w) = wire w"
  by (simp add: service_inv_def socket_onerror_def emit_error say_def finish_def)

lemma onclose_fields:
  "service_inv w \<Longrightarrow>
     socket (socket_onclose w) = socket w \<and> sockets (socket_onclose w) = sockets w \<and>
     \<not> isConnecting (socket_onclose w) \<and> wire (socket_onclose w) = wire w \<and>
     reconnectAttempts (socket_onclose w) =
       (if reconnectAttempts w < 5 then Suc (reconnectAttempts w) else reconnectAttempts w)"
  by (simp add: onclose_eq) (simp add: service_inv_def handleReconnect_def say_def Let_def)

lemma failure_cycle:
  assumes "service_inv w" "socket w = Some i" "sockets w = replicate i CLOSED @ [CONNECTING]"
    "reconnectAttempts w < 5" "wire w = []"
  shows "service_inv (run P S [Close i True, Connect False] w) \<and>
         socket (run P S [Close i True, Connect False] w) = Some (Suc i) \<and>
         sockets (run P S [Close i True, Connect False] w) = replicate (Suc i) CLOSED @ [CONNECTING] \<and>
         \<not> isConnected (run P S [Close i True, Connect False] w) \<and>
         reconnectAttempts (run P S [Close i True, Connect False] w) = Suc (reconnectAttempts w) \<and>
         timers (run P S [Close i True, Connect False] w) = timers w @ [3000] \<and>
         wire (run P S [Close i True, Connect False] w) = []"
proof -
  have r: "ready_of (sockets w) i = Some CONNECTING"
    using assms(3) by (simp add: ready_of_def nth_append)
  have s: "set_ready i CLOSED (sockets w) = replicate (Suc i) CLOSED"
    using assms(3) by (simp add: set_ready_def list_update_append replicate_append_same)
  let ?w1 = "w\<lparr>sockets := replicate (Suc i) CLOSED\<rparr>"
  let ?w2 = "step P S (Close i True) w"
  have i1: "service_inv ?w1" using assms(1) by (rule inv_sockets)
  have i1e: "service_inv (socket_onerror ?w1)" using i1 by (rule inv_onerror)
  have c: "?w2 = socket_onclose (socket_onerror ?w1)"
    using r s by (simp add: step_def Let_def)
  have f: "socket ?w2 = Some i" "sockets ?w2 = replicate (Suc i) CLOSED" "\<not> isConnecting ?w2"
    "\<not> isConnected ?w2" "reconnectAttempts ?w2 = Suc (reconnectAttempts w)"
    "timers ?w2 = timers w @ [3000]" "wire ?w2 = []"
    using assms onclose_fields [OF i1e] onclose_timers [OF i1e] onerror_fields [OF i1]
      onerror_keeps [OF i1]
    unfolding c by simp_all
  have i2: "service_inv ?w2" using assms(1) by (rule inv_step)
  have no: "\<not> socket_open ?w2"
    using f by (simp add: socket_open_def ready_of_def del: replicate_Suc)
  have "run P S [Close i True, Connect False] w = connect False ?w2" by (simp add: step_def)
  with f no inv_connect [OF i2, of False] show ?thesis
    by (simp add: connect_def Let_def del: replicate_Suc)
qed

lemma run_append: "run P S (xs @ ys) w = run P S ys (run P S xs w)"
  by (induction xs arbitrary: w) simp_all

lemma failures_fields:
  "n \<le> 5 \<Longrightarrow>
   service_inv (run P S (failures n) mounted) \<and>
   socket (run P S (failures n) mounted) = Some n \<and>
   sockets (run P S (failures n) mounted) = replicate n CLOSED @ [CONNECTING] \<and>
   \<not> isConnected (run P S (failures n) mounted) \<and>
   reconnectAttempts (run P S (failures n) mounted) = n \<and>
   timers (run P S (failures n) mounted) = replicate n 3000 \<and>
   wire (run P S (failures n) mounted) = []"
proof (induction n)
  case 0
  show ?case by (simp add: inv_mounted) (simp add: mounted_eq)
next
  case (Suc n)
  let ?w = "run P S (failures n) mounted"
  from Suc have h: "service_inv ?w" "socket ?w = Some n"
    "sockets ?w = replicate n CLOSED @ [CONNECTING]" "reconnectAttempts ?w < 5" "wire ?w = []"
    "reconnectAttempts ?w = n" "timers ?w = replicate n 3000"
    by simp_all
  have "run P S (failures (Suc n)) mounted = run P S [Close n True, Connect False] ?w"
    by (simp only: failures.simps run_append)
  with failure_cycle [OF h(1-5), of P S] h(6,7) show ?case
    by (simp only: replicate_append_same replicate_Suc) simp
qed

lemma exhausted_fields:
  "service_inv exhausted \<and> socket exhausted = Some 5 \<and>
   sockets exhausted = replicate 5 CLOSED @ [CONNECTING] \<and> \<not> isConnected exhausted \<and>
   reconnectAttempts exhausted = 5 \<and> timers exhausted = replicate 5 3000 \<and>
   wire exhausted = []"
  unfolding exhausted_def by (rule failures_fields) simp

lemma exhausted_run:
  "exhausted = run Map.empty (mark_shape JNull) (failures 5) (app_mount False WebSocketService)"
  by (simp only: exhausted_def mounted_def)

lemma mounted_run: "mounted = run P S [] (app_mount False WebSocketService)"
  by (simp add: mounted_def)

lemma prod_failed_once:
  "p_timers (prod_run Map.empty [PConnect False, PClose 0 True] prod_init)
     = [(ClearError, 5000), (ConnectWebSocket, 3000)]"
  by (simp add: prod_step_def connectWebSocket_def websocket_onclose_def websocket_onerror_def
      handleError_def prod_init_def ready_of_def set_ready_def Let_def)

lemma subscribed_eq:
  "subscribed = connected\<lparr>selectedRoute := route7, wire := [(0, ''expected'')]\<rparr>"
  by (simp add: subscribed_def handleRouteSelect_def route7_def send_def finish_def
      mark_shape_def connected_eq ready_of_def Let_def)

lemma resubscribe_run:
  "socket (run Map.empty S [Close 0 False, Connect False, Open 1] subscribed) = Some 1 \<and>
   sockets (run Map.empty S [Close 0 False, Connect False, Open 1] subscribed) = [CLOSED, OPEN] \<and>
   isConnected (run Map.empty S [Close 0 False, Connect False, Open 1] subscribed) \<and>
   selectedRoute (run Map.empty S [Close 0 False, Connect False, Open 1] subscribed) = route7"
  by (simp add: subscribed_eq connected_eq step_def socket_onclose_def socket_onopen_def
      connect_def emit_disconnect emit_connect handleReconnect_def finish_def say_def
      socket_open_def ready_of_def set_ready_def Let_def)

section \<open>The claims\<close>

text \<open>
  C1, as amended. In WebSocketService the maximum is 5 in every state the service
  reaches, and \<^verbatim>\<open>handleReconnect\<close> sets a timer exactly when the counter is below it, so
  each close event schedules a new attempt only while the counter is below 5. Over any
  stretch of events in which no socket opens, however they interleave, at most
  \<open>5 - reconnectAttempts\<close> attempts are scheduled; once the counter is 5 none is, and the
  consumer, told \<^verbatim>\<open>disconnect\<close> at the close, is not told \<^verbatim>\<open>connect\<close> again. The
  production App's own \<^verbatim>\<open>connectWebSocket\<close> has no counter in its close handler: every
  close schedules a reconnection.
\<close>

theorem reconnect_bounded:
  assumes "w = run parse stringify evs (app_mount b WebSocketService)"
  shows "maxReconnectAttempts w = 5 \<and> reconnectAttempts w \<le> 5 \<and>
     timers (handleReconnect w) =
       (if reconnectAttempts w < 5 then timers w @ [3000] else timers w) \<and>
     (\<forall>i r failed. ready_of (sockets w) i = Some r \<and> r \<noteq> CLOSED \<longrightarrow>
        timers (step parse stringify (Close i failed) w) =
          (if reconnectAttempts w < 5 then timers w @ [3000] else timers w) \<and>
        \<not> isConnected (step parse stringify (Close i failed) w)) \<and>
     (\<forall>evs'. (\<forall>ev \<in> set evs'. \<not> is_open ev) \<longrightarrow>
        length (timers (run parse stringify evs' w))
          \<le> length (timers w) + (5 - reconnectAttempts w) \<and>
        (reconnectAttempts w = 5 \<longrightarrow> timers (run parse stringify evs' w) = timers w) \<and>
        (\<not> isConnected w \<longrightarrow> \<not> isConnected (run parse stringify evs' w))) \<and>
     p_timers (websocket_onclose st) = p_timers st @ [(ConnectWebSocket, 3000)]"
proof -
  have i: "service_inv w" using assms by (simp add: inv_run inv_mount)
  have a: "maxReconnectAttempts w = 5 \<and> reconnectAttempts w \<le> 5"
    using i by (simp add: service_inv_def)
  have h: "timers (handleReconnect w) =
       (if reconnectAttempts w < 5 then timers w @ [3000] else timers w)"
    using i by (simp add: service_inv_def handleReconnect_def say_def Let_def)
  have p: "p_timers (websocket_onclose st) = p_timers st @ [(ConnectWebSocket, 3000)]"
    by (simp add: websocket_onclose_def)
  have c: "length (timers (run parse stringify evs' w))
          \<le> length (timers w) + (5 - reconnectAttempts w) \<and>
        (reconnectAttempts w = 5 \<longrightarrow> timers (run parse stringify evs' w) = timers w) \<and>
        (\<not> isConnected w \<longrightarrow> \<not> isConnected (run parse stringify evs' w))"
    if n: "\<forall>ev \<in> set evs'. \<not> is_open ev" for evs'
  proof -
    let ?w' = "run parse stringify evs' w"
    have i': "service_inv ?w'" using i by (rule inv_run)
    have q: "quiet w ?w'" using i n by (rule quiet_run)
    have "reconnectAttempts ?w' \<le> 5" using i' by (simp add: service_inv_def)
    moreover from q have
      "length (timers ?w') + reconnectAttempts w = length (timers w) + reconnectAttempts ?w'"
      "reconnectAttempts w \<le> reconnectAttempts ?w'"
      by (simp_all add: quiet_def)
    ultimately have "length (timers ?w') \<le> length (timers w) + (5 - reconnectAttempts w)"
      by arith
    moreover have "reconnectAttempts w = 5 \<longrightarrow> timers ?w' = timers w"
      using exhausted_stays [OF i i' q] by simp
    moreover have "\<not> isConnected w \<longrightarrow> \<not> isConnected ?w'"
      using q by (auto simp: quiet_def)
    ultimately show ?thesis by simp
  qed
  from a h p c close_step [OF i] show ?thesis by blast
qed

theorem reconnect_bounded_witness:
  "reconnectAttempts exhausted = 5 \<and> timers exhausted = replicate 5 3000 \<and>
   timers (step Map.empty (mark_shape JNull) (Close 5 True) exhausted) = replicate 5 3000 \<and>
   \<not> isConnected (step Map.empty (mark_shape JNull) (Close 5 True) exhausted) \<and>
   timers (run Map.empty (mark_shape JNull) [Close 5 True, Connect False, Disconnect] exhausted)
     = replicate 5 3000 \<and>
   \<not> isConnected
       (run Map.empty (mark_shape JNull) [Close 5 True, Connect False, Disconnect] exhausted) \<and>
   timers (step Map.empty (mark_shape JNull) (Close 0 True) mounted) = [3000] \<and>
   p_timers (websocket_onclose prod_init) = [(ConnectWebSocket, 3000)]"
proof -
  let ?P = "Map.empty :: string \<Rightarrow> jsval option" and ?S = "mark_shape JNull"
  let ?evs = "[Close 5 True, Connect False, Disconnect]"
  have r: "ready_of (sockets exhausted) 5 = Some CONNECTING \<and> CONNECTING \<noteq> CLOSED"
    using exhausted_fields by (simp add: ready_of_def nth_append)
  have n: "\<forall>ev \<in> set ?evs. \<not> is_open ev" by simp
  have m: "ready_of (sockets mounted) 0 = Some CONNECTING \<and> CONNECTING \<noteq> CLOSED"
    "reconnectAttempts mounted = 0" "timers mounted = []"
    by (simp_all add: mounted_eq ready_of_def)
  have x: "reconnectAttempts exhausted = 5" "timers exhausted = replicate 5 3000"
    "\<not> isConnected exhausted"
    using exhausted_fields by simp_all
  note e = reconnect_bounded [OF exhausted_run, where st = prod_init]
  from e have e1: "\<forall>i r failed. ready_of (sockets exhausted) i = Some r \<and> r \<noteq> CLOSED \<longrightarrow>
        timers (step ?P ?S (Close i failed) exhausted) =
          (if reconnectAttempts exhausted < 5 then timers exhausted @ [3000]
           else timers exhausted) \<and>
        \<not> isConnected (step ?P ?S (Close i failed) exhausted)"
    by blast
  from e have e2: "\<forall>evs'. (\<forall>ev \<in> set evs'. \<not> is_open ev) \<longrightarrow>
        length (timers (run ?P ?S evs' exhausted))
          \<le> length (timers exhausted) + (5 - reconnectAttempts exhausted) \<and>
        (reconnectAttempts exhausted = 5 \<longrightarrow> timers (run ?P ?S evs' exhausted) = timers exhausted) \<and>
        (\<not> isConnected exhausted \<longrightarrow> \<not> isConnected (run ?P ?S evs' exhausted))"
    by blast
  from e have e3: "p_timers (websocket_onclose prod_init) = p_timers prod_init @ [(ConnectWebSocket, 3000)]"
    by blast
  from e1 [rule_format, OF r, of True] x
  have c1: "timers (step ?P ?S (Close 5 True) exhausted) = replicate 5 3000 \<and>
        \<not> isConnected (step ?P ?S (Close 5 True) exhausted)"
    by simp
  from spec [OF e2, of ?evs] n x
  have c2: "timers (run ?P ?S ?evs exhausted) = replicate 5 3000 \<and>
        \<not> isConnected (run ?P ?S ?evs exhausted)"
    by (simp del: run.simps)
  from reconnect_bounded [OF mounted_run, of ?P ?S]
  have "\<forall>i r failed. ready_of (sockets mounted) i = Some r \<and> r \<noteq> CLOSED \<longrightarrow>
        timers (step ?P ?S (Close i failed) mounted) =
          (if reconnectAttempts mounted < 5 then timers mounted @ [3000]
           else timers mounted) \<and>
        \<not> isConnected (step ?P ?S (Close i failed) mounted)"
    by blast
  from this [rule_format, OF m(1), of True] m(2,3)
  have c3: "timers (step ?P ?S (Close 0 True) mounted) = [3000]" by simp
  from e3 have c4: "p_timers (websocket_onclose prod_init) = [(ConnectWebSocket, 3000)]"
    by (simp add: prod_init_def)
  from x c1 c2 c3 c4 show ?thesis by (simp del: run.simps)
qed

text \<open>
  C1 as stated fails on the production App (src/unnamed/part_001), whose close handler
  reads no counter: the first connection and five reconnections fail one after the
  other, no socket ever opens, and the close of the fifth reconnection schedules a sixth.
\<close>

theorem unbounded_retry_counterexample:
  "\<not> length (filter (\<lambda>t. fst t = ConnectWebSocket)
        (p_timers (prod_run Map.empty
           [PConnect False, PClose 0 True, PConnect False, PClose 1 True,
            PConnect False, PClose 2 True, PConnect False, PClose 3 True,
            PConnect False, PClose 4 True, PConnect False, PClose 5 True] prod_init))) \<le> 5"
  by (simp add: prod_step_def connectWebSocket_def websocket_onclose_def websocket_onerror_def
      handleError_def prod_init_def ready_of_def set_ready_def Let_def)

text \<open>
  C2, as amended. For every inbound message that parses to a value whose \<^verbatim>\<open>type\<close>
  property is \<^verbatim>\<open>"update"\<close>, the production App replaces its vehicle state with the
  envelope's \<^verbatim>\<open>bus_locations\<close> value and its prediction state with the envelope's
  \<^verbatim>\<open>predictions\<close> value, each replaced by \<^verbatim>\<open>[]\<close> when missing or falsy (a list is
  always kept as it is); the simple App replaces its bus list in the same way and keeps no
  prediction state. Every parsed message whose type is not \<^verbatim>\<open>"update"\<close> leaves these
  states unchanged.
\<close>

theorem update_replaces_state:
  assumes "parse payload = Some data"
  shows "(get_prop data ''type'' = Inr (JStr ''update'') \<longrightarrow>
           (\<exists>b p. get_prop data ''bus_locations'' = Inr b \<and>
              get_prop data ''predictions'' = Inr p \<and>
              p_busLocations (websocket_onmessage parse payload st) = or_empty b \<and>
              p_predictions (websocket_onmessage parse payload st) = or_empty p \<and>
              s_buses (ws_onmessage parse payload ss) = or_empty b)) \<and>
         (get_prop data ''type'' \<noteq> Inr (JStr ''update'') \<longrightarrow>
            p_busLocations (websocket_onmessage parse payload st) = p_busLocations st \<and>
            p_predictions (websocket_onmessage parse payload st) = p_predictions st \<and>
            s_buses (ws_onmessage parse payload ss) = s_buses ss) \<and>
         (\<forall>xs. or_empty (JArr xs) = JArr xs) \<and> or_empty JUndefined = JArr []"
proof -
  have u: "\<exists>b p. get_prop data ''bus_locations'' = Inr b \<and> get_prop data ''predictions'' = Inr p"
    if "get_prop data ''type'' = Inr t" for t
    using that by (cases data) (auto split: option.splits)
  show ?thesis
    using assms u
    by (auto simp: websocket_onmessage_def ws_onmessage_def handleError_def or_empty_def Let_def
        split: sum.splits)
qed

theorem update_replaces_state_witness:
  "p_busLocations (websocket_onmessage [''m'' \<mapsto> update_envelope] ''m'' prod_tracking)
     = JArr [JStr ''bus-1''] \<and>
   p_predictions (websocket_onmessage [''m'' \<mapsto> update_envelope] ''m'' prod_tracking)
     = JArr [JStr ''eta-1''] \<and>
   s_buses (ws_onmessage [''m'' \<mapsto> update_envelope] ''m'' simple_init) = JArr [JStr ''bus-1''] \<and>
   p_busLocations (websocket_onmessage [''m'' \<mapsto> pong_message] ''m'' prod_tracking)
     = JArr [JStr ''bus-0''] \<and>
   p_predictions (websocket_onmessage [''m'' \<mapsto> pong_message] ''m'' prod_tracking)
     = JArr [JStr ''eta-0'']"
proof -
  have e: "[''m'' \<mapsto> update_envelope] ''m'' = Some update_envelope"
    "[''m'' \<mapsto> pong_message] ''m'' = Some pong_message"
    by simp_all
  have g: "get_prop update_envelope ''type'' = Inr (JStr ''update'')"
    "get_prop update_envelope ''bus_locations'' = Inr (JArr [JStr ''bus-1''])"
    "get_prop update_envelope ''predictions'' = Inr (JArr [JStr ''eta-1''])"
    "get_prop pong_message ''type'' \<noteq> Inr (JStr ''update'')"
    by (simp_all add: update_envelope_def pong_message_def)
  have b: "p_busLocations prod_tracking = JArr [JStr ''bus-0'']"
    "p_predictions prod_tracking = JArr [JStr ''eta-0'']"
    by (simp_all add: prod_tracking_def)
  from update_replaces_state [where parse = "[''m'' \<mapsto> update_envelope]" and payload = "''m''"
      and data = update_envelope and st = prod_tracking and ss = simple_init] e g
  have "p_busLocations (websocket_onmessage [''m'' \<mapsto> update_envelope] ''m'' prod_tracking)
     = JArr [JStr ''bus-1''] \<and>
   p_predictions (websocket_onmessage [''m'' \<mapsto> update_envelope] ''m'' prod_tracking)
     = JArr [JStr ''eta-1''] \<and>
   s_buses (ws_onmessage [''m'' \<mapsto> update_envelope] ''m'' simple_init) = JArr [JStr ''bus-1'']"
    by auto
  moreover from update_replaces_state [where parse = "[''m'' \<mapsto> pong_message]"
      and payload = "''m''" and data = pong_message and st = prod_tracking and ss = simple_init]
    e g b
  have "p_busLocations (websocket_onmessage [''m'' \<mapsto> pong_message] ''m'' prod_tracking)
     = JArr [JStr ''bus-0''] \<and>
   p_predictions (websocket_onmessage [''m'' \<mapsto> pong_message] ''m'' prod_tracking)
     = JArr [JStr ''eta-0'']"
    by auto
  ultimately show ?thesis by simp
qed

text \<open>
  C2 as stated takes the vehicles from the envelope the specification gives,
  \<^verbatim>\<open>{ type: "update", tick, timestamp, vehicles: [...], predictions: [...] }\<close>. The
  client reads \<^verbatim>\<open>bus_locations\<close>: on that envelope it finds none and empties its vehicle
  state instead of taking the list under \<^verbatim>\<open>vehicles\<close>.
\<close>

theorem update_vehicles_key_counterexample:
  "p_busLocations (websocket_onmessage [''m'' \<mapsto> spec_envelope] ''m'' prod_tracking) = JArr [] \<and>
   p_busLocations (websocket_onmessage [''m'' \<mapsto> spec_envelope] ''m'' prod_tracking)
     \<noteq> JArr [JStr ''bus-1'']"
  by (simp add: websocket_onmessage_def spec_envelope_def prod_tracking_def prod_init_def
      or_empty_def Let_def)

text \<open>
  C3, as amended. When the user selects a route while \<^verbatim>\<open>isConnected\<close> is true and the
  service's socket is OPEN, App.js sends exactly one frame on that socket, the
  serialisation of
  \<^verbatim>\<open>{ type: "subscribe", subscription_type: "route", route_id: <route.id> }\<close>. While
  \<^verbatim>\<open>isConnected\<close> is false it only records the selection; while it is true and the
  socket is not OPEN, nothing is sent.
\<close>

theorem route_select_subscribes:
  "(\<not> isConnected w \<longrightarrow> handleRouteSelect stringify route w = w\<lparr>selectedRoute := route\<rparr>) \<and>
   (isConnected w \<and> \<not> socket_open w \<longrightarrow>
      wire (handleRouteSelect stringify route w) = wire w) \<and>
   (isConnected w \<and> socket_open w \<longrightarrow>
      (\<exists>i. socket w = Some i \<and>
        (\<forall>rid text. get_prop route ''id'' = Inr rid \<and>
           stringify (JObj [(''type'', JStr ''subscribe''),
                            (''subscription_type'', JStr ''route''),
                            (''route_id'', rid)]) = Inr text \<longrightarrow>
           handleRouteSelect stringify route w =
             w\<lparr>selectedRoute := route, wire := wire w @ [(i, text)]\<rparr>)))"
  by (auto simp: handleRouteSelect_def subscribe_message_def send_def finish_def say_def
      socket_open_def Let_def split: option.splits sum.splits)

theorem route_select_subscribes_witness:
  "wire (handleRouteSelect
           (mark_shape (JObj [(''type'', JStr ''subscribe''),
                              (''subscription_type'', JStr ''route''),
                              (''route_id'', JNum 7)])) route7 connected)
     = [(0, ''expected'')] \<and>
   wire (handleRouteSelect (mark_shape JNull) route7 mounted) = []"
proof -
  let ?S = "mark_shape (JObj [(''type'', JStr ''subscribe''),
                              (''subscription_type'', JStr ''route''),
                              (''route_id'', JNum 7)])"
  have a: "isConnected connected" "socket connected = Some 0" "wire connected = []"
    "\<not> isConnected mounted" "wire mounted = []"
    by (simp_all add: connected_eq mounted_eq)
  have b: "get_prop route7 ''id'' = Inr (JNum 7)"
    "?S (JObj [(''type'', JStr ''subscribe''), (''subscription_type'', JStr ''route''),
               (''route_id'', JNum 7)]) = Inr ''expected''"
    by (simp_all add: route7_def mark_shape_def)
  from route_select_subscribes [of connected ?S route7] a connected_open b
  have "handleRouteSelect ?S route7 connected =
          connected\<lparr>selectedRoute := route7, wire := wire connected @ [(0, ''expected'')]\<rparr>"
    by auto
  moreover from route_select_subscribes [of mounted "mark_shape JNull" route7] a
  have "handleRouteSelect (mark_shape JNull) route7 mounted = mounted\<lparr>selectedRoute := route7\<rparr>"
    by blast
  ultimately show ?thesis using a by simp
qed

text \<open>
  C3 as stated gives the payload the shape
  \<^verbatim>\<open>{ type: "subscribe", filter: "route", value: <route identifier> }\<close>. The one frame
  sent for route 7 is not the serialisation of that value.
\<close>

theorem subscribe_shape_counterexample:
  "wire (handleRouteSelect
           (mark_shape (JObj [(''type'', JStr ''subscribe''), (''filter'', JStr ''route''),
                              (''value'', JNum 7)])) route7 connected)
     = [(0, ''other'')]"
  by (simp add: handleRouteSelect_def route7_def send_def finish_def subscribe_message_def
      mark_shape_def connected_eq ready_of_def Let_def)

text \<open>
  C4. Every reconnection timer has the same delay of 3000 ms, whatever the number of
  the attempt: in every state WebSocketService reaches, \<^verbatim>\<open>reconnectInterval\<close> is 3000
  and so is the delay of the n-th \<^verbatim>\<open>setTimeout\<close> call for every n; in every state the
  production App reaches, every timer that calls \<^verbatim>\<open>connectWebSocket\<close> has delay 3000.
\<close>

theorem reconnect_delay_fixed:
  assumes "w = run parse stringify evs (app_mount b WebSocketService)"
    and "st = prod_run parse pevs prod_init"
  shows "reconnectInterval w = 3000 \<and>
         (\<forall>n < length (timers w). timers w ! n = 3000) \<and>
         (reconnectAttempts w < 5 \<longrightarrow> timers (handleReconnect w) = timers w @ [3000]) \<and>
         (\<forall>t \<in> set (p_timers st). fst t = ConnectWebSocket \<longrightarrow> snd t = 3000) \<and>
         p_timers (websocket_onclose st) = p_timers st @ [(ConnectWebSocket, 3000)]"
proof -
  have i: "service_inv w" using assms(1) by (simp add: inv_run inv_mount)
  have p: "prod_timers_ok st" using assms(2) by (simp add: prod_timers_run prod_timers_init)
  have "timers w ! n = 3000" if "n < length (timers w)" for n
    using i nth_mem [OF that] by (auto simp: service_inv_def)
  moreover have "snd t = 3000" if "t \<in> set (p_timers st)" "fst t = ConnectWebSocket" for t
    using p that by (auto simp: prod_timers_ok_def)
  ultimately show ?thesis
    using i by (simp add: service_inv_def handleReconnect_def say_def Let_def websocket_onclose_def)
qed

theorem reconnect_delay_fixed_witness:
  "reconnectInterval exhausted = 3000 \<and>
   length (timers exhausted) = 5 \<and> timers exhausted ! 0 = 3000 \<and> timers exhausted ! 4 = 3000 \<and>
   snd (p_timers (prod_run Map.empty [PConnect False, PClose 0 True] prod_init) ! 1) = 3000"
proof -
  let ?st = "prod_run Map.empty [PConnect False, PClose 0 True] prod_init"
  have l: "length (timers exhausted) = 5" using exhausted_fields by simp
  have m: "p_timers ?st ! 1 \<in> set (p_timers ?st)" "fst (p_timers ?st ! 1) = ConnectWebSocket"
    unfolding prod_failed_once by simp_all
  from reconnect_delay_fixed [OF exhausted_run refl, where pevs = "[PConnect False, PClose 0 True]"]
  have "reconnectInterval exhausted = 3000"
    "\<forall>n < length (timers exhausted). timers exhausted ! n = 3000"
    "\<forall>t \<in> set (p_timers ?st). fst t = ConnectWebSocket \<longrightarrow> snd t = 3000"
    by blast+
  with l m show ?thesis by simp
qed

text \<open>
  C5. The interval callback runs every 30000 ms. It transmits the message
  \<^verbatim>\<open>{ type: "ping" }\<close> on the service's socket when that socket exists and is OPEN, and
  does nothing at all otherwise.
\<close>

theorem ping_every_30s:
  "pingInterval = 30 * 1000 \<and>
   ping_message = JObj [(''type'', JStr ''ping'')] \<and>
   (\<not> socket_open w \<longrightarrow> ping_tick stringify w = w) \<and>
   (socket_open w \<longrightarrow>
      (\<exists>i. socket w = Some i \<and>
        (\<forall>text. stringify ping_message = Inr text \<longrightarrow>
           ping_tick stringify w = w\<lparr>wire := wire w @ [(i, text)]\<rparr>)))"
  by (auto simp: pingInterval_def ping_message_def ping_tick_def ping_def send_def
      finish_def socket_open_def split: option.splits sum.splits)

theorem ping_every_30s_witness:
  "wire (ping_tick (mark_shape (JObj [(''type'', JStr ''ping'')])) connected) = [(0, ''expected'')] \<and>
   wire (ping_tick (mark_shape (JObj [(''type'', JStr ''ping'')])) mounted) = []"
proof -
  have a: "socket connected = Some 0" "wire connected = []" "wire mounted = []"
    by (simp_all add: connected_eq mounted_eq)
  have b: "mark_shape (JObj [(''type'', JStr ''ping'')]) ping_message = Inr ''expected''"
    by (simp add: mark_shape_def ping_message_def)
  show ?thesis
    using ping_every_30s [of connected "mark_shape (JObj [(''type'', JStr ''ping'')])"]
      ping_every_30s [of mounted "mark_shape (JObj [(''type'', JStr ''ping'')])"]
      connected_open mounted_not_open a b
    by auto
qed

text \<open>
  C6. When the payload of an inbound message is not valid JSON, each of the three
  receivers (WebSocketService, the production App, the simple App) catches the error and
  logs it on the console; no socket changes state, the reference to the socket stays,
  and the vehicle and prediction states are unchanged.
\<close>

theorem malformed_message_ignored:
  assumes "parse payload = None"
  shows "socket_onmessage parse payload w = say ERROR ''Error parsing WebSocket message:'' w \<and>
     busLocations (socket_onmessage parse payload w) = busLocations w \<and>
     predictions (socket_onmessage parse payload w) = predictions w \<and>
     socket (socket_onmessage parse payload w) = socket w \<and>
     sockets (socket_onmessage parse payload w) = sockets w \<and>
     uncaught (socket_onmessage parse payload w) = uncaught w \<and>
     websocket_onmessage parse payload st =
       handleError SyntaxError ''Parsing WebSocket message'' st \<and>
     p_busLocations (websocket_onmessage parse payload st) = p_busLocations st \<and>
     p_predictions (websocket_onmessage parse payload st) = p_predictions st \<and>
     p_ws (websocket_onmessage parse payload st) = p_ws st \<and>
     p_sockets (websocket_onmessage parse payload st) = p_sockets st \<and>
     p_console (websocket_onmessage parse payload st) =
       p_console st @ [(ERROR, ''Error in Parsing WebSocket message:'')] \<and>
     ws_onmessage parse payload ss =
       ss\<lparr>s_console := s_console ss @ [(ERROR, ''Error parsing WebSocket message:'')]\<rparr>"
  using assms
  by (simp add: socket_onmessage_def websocket_onmessage_def ws_onmessage_def say_def
      handleError_def)

theorem malformed_message_ignored_witness:
  "busLocations (socket_onmessage Map.empty ''not json'' subscribed) = JArr [] \<and>
   sockets (socket_onmessage Map.empty ''not json'' subscribed) = [OPEN] \<and>
   console (socket_onmessage Map.empty ''not json'' subscribed) =
     console subscribed @ [(ERROR, ''Error parsing WebSocket message:'')] \<and>
   p_busLocations (websocket_onmessage Map.empty ''not json'' prod_tracking) = JArr [JStr ''bus-0''] \<and>
   p_predictions (websocket_onmessage Map.empty ''not json'' prod_tracking) = JArr [JStr ''eta-0''] \<and>
   s_buses (ws_onmessage Map.empty ''not json'' simple_init) = JArr [] \<and>
   s_ws (ws_onmessage Map.empty ''not json'' simple_init) = CONNECTING"
proof -
  have a: "busLocations subscribed = JArr []" "sockets subscribed = [OPEN]"
    by (simp_all add: subscribed_eq connected_eq)
  have b: "p_busLocations prod_tracking = JArr [JStr ''bus-0'']"
    "p_predictions prod_tracking = JArr [JStr ''eta-0'']"
    "s_buses simple_init = JArr []" "s_ws simple_init = CONNECTING"
    by (simp_all add: prod_tracking_def simple_init_def)
  show ?thesis
    using malformed_message_ignored [where parse = Map.empty and payload = "''not json''"
        and w = subscribed and st = prod_tracking and ss = simple_init] a b
    by (simp add: say_def handleError_def)
qed

text \<open>
  C7. The on-open handler transmits nothing, and neither does any other event of a
  connection's life (connect, disconnect, open, message, close, error, a timer): over any
  sequence of events without a call of \<^verbatim>\<open>send\<close>, \<^verbatim>\<open>ping\<close> or a route selection, the
  frames handed to sockets stay as they were. So after a close and a successful
  reconnection the earlier subscribe request has not been sent again. The production App
  never transmits at all.
\<close>

theorem reconnect_sends_nothing:
  "wire (socket_onopen w) = wire w \<and>
   ((\<forall>ev \<in> set evs. \<not> transmits ev) \<longrightarrow> wire (run parse stringify evs w) = wire w) \<and>
   p_wire (websocket_onopen st) = p_wire st \<and>
   p_wire (prod_run parse pevs st) = p_wire st"
  by (simp add: wire_onopen wire_run prod_wire_run websocket_onopen_def)

theorem reconnect_sends_nothing_witness:
  "wire subscribed = [(0, ''expected'')] \<and>
   wire (run Map.empty (mark_shape (subscribe_message (JNum 7)))
          [Close 0 False, Connect False, Open 1] subscribed) = [(0, ''expected'')] \<and>
   socket (run Map.empty (mark_shape (subscribe_message (JNum 7)))
          [Close 0 False, Connect False, Open 1] subscribed) = Some 1 \<and>
   sockets (run Map.empty (mark_shape (subscribe_message (JNum 7)))
          [Close 0 False, Connect False, Open 1] subscribed) = [CLOSED, OPEN]"
proof -
  have n: "\<forall>ev \<in> set [Close 0 False, Connect False, Open 1]. \<not> transmits ev" by simp
  have s: "wire subscribed = [(0, ''expected'')]" by (simp add: subscribed_eq)
  from reconnect_sends_nothing [of subscribed "[Close 0 False, Connect False, Open 1]"
      Map.empty "mark_shape (subscribe_message (JNum 7))"] n
  have "wire (run Map.empty (mark_shape (subscribe_message (JNum 7)))
          [Close 0 False, Connect False, Open 1] subscribed) = wire subscribed"
    by blast
  with s resubscribe_run [of "mark_shape (subscribe_message (JNum 7))"] show ?thesis by simp
qed






text \<open>
  C10, as amended. \<^verbatim>\<open>connect()\<close> called while \<^verbatim>\<open>isConnecting\<close> is true or while the
  current socket is OPEN changes no state, so it is idempotent there; called in any
  other state it creates exactly one socket, or none when the constructor throws.
\<close>

theorem connect_noop:
  "(isConnecting w \<or> socket_open w \<longrightarrow>
      connect throws w = w \<and> connect throws' (connect throws w) = connect throws w) \<and>
   (\<not> isConnecting w \<and> \<not> socket_open w \<longrightarrow>
      sockets (connect False w) = sockets w @ [CONNECTING] \<and>
      sockets (connect True w) = sockets w)"
  by (simp add: connect_def handleReconnect_def say_def Let_def)

theorem connect_noop_witness:
  "connect False mounted = mounted \<and> connect False connected = connected \<and>
   sockets (connect False WebSocketService) = [CONNECTING]"
proof -
  have a: "isConnecting mounted" "\<not> isConnecting WebSocketService"
    "\<not> socket_open WebSocketService" "sockets WebSocketService = []"
    by (simp_all add: mounted_eq WebSocketService_def socket_open_def)
  show ?thesis
    using connect_noop [of mounted False False] connect_noop [of connected False False]
      connect_noop [of WebSocketService False False] connected_open a
    by simp
qed

text \<open>
  C10 as stated also says that at most one socket is being opened at any time. The
  guard does not give that: the close event of a socket that \<^verbatim>\<open>disconnect()\<close> has let go
  clears \<^verbatim>\<open>isConnecting\<close> while the next socket is still CONNECTING, and the following
  \<^verbatim>\<open>connect()\<close> (the timer that close event has set, or the consumer) opens another.
\<close>

theorem connect_single_socket_counterexample:
  "\<not> length (filter (\<lambda>r. r = CONNECTING)
        (sockets (run Map.empty (mark_shape JNull)
           [Connect False, Disconnect, Connect False, Close 0 True, Connect False]
           WebSocketService))) \<le> 1"
  by (simp add: step_def connect_def disconnect_def socket_onclose_def socket_onerror_def
      emit_def finish_def handleReconnect_def say_def socket_open_def ready_of_def
      set_ready_def ws_close_def WebSocketService_def Let_def)

end
